theory Spec2Isabelle
  imports Main "HOL-Library.FSet"
begin

section \<open>The action element of lgr/action.py\<close>

text \<open>
  The module defines one class, \<open>Action\<close>, with a constructor, the method \<open>apply\<close>
  and structural equality and hashing. Dispositions and rule names are Python strings
  (\<^typ>\<open>string\<close>), a label is a sequence of code points (\<^typ>\<open>nat list\<close>), a
  \<open>frozenset\<close> of dispositions is a finite set (\<^typ>\<open>string fset\<close>) and \<open>None\<close> is
  the \<open>None\<close> of \<^typ>\<open>'a option\<close>. An exception is a value: every function that can
  raise returns \<open>exception + 'a\<close>, with \<open>Inl\<close> for the raised exception.

  The calls to the two loggers (and \<open>format_cp\<close>, which only formats the label for
  the first of them) report what was computed and change no value; they are left out.
\<close>

subsection \<open>Exceptions\<close>

text \<open>
  \<open>LGRFormatException\<close> carries a reason; the only reason this module uses is
  \<open>MATCH_NOT_MATCH\<close>. \<open>KeyError\<close> is what the subscript \<open>rules_lookup[name]\<close> raises
  on a dictionary without the key \<open>name\<close>. \<open>RuleError\<close> stands for what the matcher of
  a rule may raise (the docstring of \<open>apply\<close>: "raises RuleError: If rule is invalid").
\<close>

datatype LGRFormatReason = MATCH_NOT_MATCH

datatype exception =
    LGRFormatException LGRFormatReason
  | KeyError string
  | RuleError string

subsection \<open>The class\<close>

record Action =
  disp :: string
  comment :: "string option"
  match :: "string option"
  not_match :: "string option"
  any_variant :: "string fset option"
  all_variants :: "string fset option"
  only_variants :: "string fset option"

text \<open>
  \<open>__init__\<close>. The three variant arguments are sequences of dispositions or \<open>None\<close>.
  The test \<open>if any_variant\<close> is Python's truth value: \<open>None\<close> and the empty sequence
  are both false. The fields are assigned first and the check of \<open>match\<close> against
  \<open>not_match\<close> comes last; when it raises, no object is returned.
\<close>

definition Action_init ::
  "string \<Rightarrow> string option \<Rightarrow> string option \<Rightarrow> string option \<Rightarrow>
   string list option \<Rightarrow> string list option \<Rightarrow> string list option \<Rightarrow>
   exception + Action" where
  "Action_init disp_arg comment_arg match_arg not_match_arg
               any_variant_arg all_variants_arg only_variants_arg =
    (let self = \<lparr>
       disp = disp_arg,
       comment = comment_arg,
       match = match_arg,
       not_match = not_match_arg,
       any_variant = (case any_variant_arg of
                        None \<Rightarrow> None
                      | Some xs \<Rightarrow> if xs \<noteq> [] then Some (fset_of_list xs) else None),
       all_variants = (case all_variants_arg of
                         None \<Rightarrow> None
                       | Some xs \<Rightarrow> if xs \<noteq> [] then Some (fset_of_list xs) else None),
       only_variants = (case only_variants_arg of
                          None \<Rightarrow> None
                        | Some xs \<Rightarrow> if xs \<noteq> [] then Some (fset_of_list xs) else None)
     \<rparr>
     in if match_arg \<noteq> None \<and> not_match_arg \<noteq> None
        then Inl (LGRFormatException MATCH_NOT_MATCH)
        else Inr self)"

subsection \<open>Applying an action\<close>

text \<open>
  The class of the rules is not part of this module. A rule is a value of a type \<open>'r\<close>,
  the dictionary \<open>rules_lookup\<close> is a map from names to rules, and the method
  \<open>rule.matches(label, rules_lookup, classes_lookup, unicode_database)\<close> is the
  parameter \<open>matches\<close>, which returns a truth value or raises. The dictionary of classes
  and the Unicode database are only handed on to it; their types \<open>'c\<close> and \<open>'u\<close> are
  left open.
\<close>

type_synonym ('r, 'c, 'u) matcher =
  "'r \<Rightarrow> nat list \<Rightarrow> (string \<rightharpoonup> 'r) \<Rightarrow> 'c \<Rightarrow> 'u \<Rightarrow> exception + bool"

text \<open>
  "First bullet" of \<open>apply\<close>: the local variable \<open>rule_matched\<close>. It starts as
  \<open>True\<close>; \<open>match\<close> is tested before \<open>not_match\<close>, and the subscript raises
  \<open>KeyError\<close> before the matcher is called.
\<close>

definition rule_matched ::
  "('r, 'c, 'u) matcher \<Rightarrow> Action \<Rightarrow> nat list \<Rightarrow> (string \<rightharpoonup> 'r) \<Rightarrow> 'c \<Rightarrow> 'u \<Rightarrow>
   exception + bool" where
  "rule_matched matches self label rules_lookup classes_lookup unicode_database =
    (case match self of
       Some name \<Rightarrow>
         (case rules_lookup name of
            None \<Rightarrow> Inl (KeyError name)
          | Some rule \<Rightarrow> matches rule label rules_lookup classes_lookup unicode_database)
     | None \<Rightarrow>
         (case not_match self of
            Some name \<Rightarrow>
              (case rules_lookup name of
                 None \<Rightarrow> Inl (KeyError name)
               | Some rule \<Rightarrow>
                   (case matches rule label rules_lookup classes_lookup unicode_database of
                      Inl e \<Rightarrow> Inl e
                    | Inr b \<Rightarrow> Inr (\<not> b)))
          | None \<Rightarrow> Inr True))"

text \<open>
  "Second bullet": the local variable \<open>variant_matched\<close>. \<open>len(s) > 0\<close> is
  \<open>0 < fcard s\<close>, \<open>&\<close> is intersection and \<open>issubset\<close> is inclusion. The argument
  \<open>only_variants\<close> of \<open>apply\<close> is called \<open>only_variants_flag\<close> here, the field of the
  same name being a constant of the record.
\<close>

definition variant_matched :: "Action \<Rightarrow> string fset \<Rightarrow> bool \<Rightarrow> bool" where
  "variant_matched self disp_set only_variants_flag =
    (case any_variant self of
       Some anyv \<Rightarrow> 0 < fcard (anyv |\<inter>| disp_set)
     | None \<Rightarrow>
         (case all_variants self of
            Some allv \<Rightarrow> 0 < fcard disp_set \<and> disp_set |\<subseteq>| allv
          | None \<Rightarrow>
              (case only_variants self of
                 Some onlyv \<Rightarrow>
                   only_variants_flag \<and> 0 < fcard disp_set \<and> disp_set |\<subseteq>| onlyv
               | None \<Rightarrow> True)))"

text \<open>
  \<open>apply\<close>: the rule condition is computed first (and may raise), then the variant
  condition; the disposition is returned when both hold and \<open>None\<close> otherwise.
\<close>

definition Action_apply ::
  "('r, 'c, 'u) matcher \<Rightarrow> Action \<Rightarrow> nat list \<Rightarrow> string fset \<Rightarrow> bool \<Rightarrow>
   (string \<rightharpoonup> 'r) \<Rightarrow> 'c \<Rightarrow> 'u \<Rightarrow> exception + string option" where
  "Action_apply matches self label disp_set only_variants_flag
                rules_lookup classes_lookup unicode_database =
    (case rule_matched matches self label rules_lookup classes_lookup unicode_database of
       Inl e \<Rightarrow> Inl e
     | Inr rm \<Rightarrow>
         (let vm = variant_matched self disp_set only_variants_flag
          in if rm \<and> vm then Inr (Some (disp self)) else Inr None))"

subsection \<open>Equality and hash\<close>

text \<open>
  \<open>__eq__\<close> compares six attributes and leaves \<open>comment\<close> out. \<open>__hash__\<close> applies
  the built-in \<open>hash\<close> to the tuple of the same six attributes; the built-in is the
  parameter \<open>hash\<close>.
\<close>

definition Action_eq :: "Action \<Rightarrow> Action \<Rightarrow> bool" where
  "Action_eq self other =
    (disp self = disp other
     \<and> match self = match other
     \<and> not_match self = not_match other
     \<and> any_variant self = any_variant other
     \<and> all_variants self = all_variants other
     \<and> only_variants self = only_variants other)"

type_synonym Action_key =
  "string \<times> string option \<times> string option \<times>
   string fset option \<times> string fset option \<times> string fset option"

definition Action_hash :: "(Action_key \<Rightarrow> int) \<Rightarrow> Action \<Rightarrow> int" where
  "Action_hash hash self =
    hash (disp self, match self, not_match self,
          any_variant self, all_variants self, only_variants self)"

section \<open>Properties\<close>

subsection \<open>Auxiliary facts\<close>

lemma len_positive: "0 < fcard s \<longleftrightarrow> s \<noteq> {||}"
  by (simp flip: neq0_conv)

lemma frozenset_nonempty: "xs \<noteq> [] \<Longrightarrow> fset_of_list xs \<noteq> {||}"
  by (cases xs) simp_all

lemma variant_matched_any:
  "any_variant a = Some s \<Longrightarrow> variant_matched a ds f \<longleftrightarrow> s |\<inter>| ds \<noteq> {||}"
  by (simp add: variant_matched_def len_positive)

lemma variant_matched_all:
  "any_variant a = None \<Longrightarrow> all_variants a = Some s \<Longrightarrow>
   variant_matched a ds f \<longleftrightarrow> ds \<noteq> {||} \<and> ds |\<subseteq>| s"
  by (simp add: variant_matched_def len_positive)

lemma variant_matched_only:
  "any_variant a = None \<Longrightarrow> all_variants a = None \<Longrightarrow> only_variants a = Some s \<Longrightarrow>
   variant_matched a ds f \<longleftrightarrow> f \<and> ds \<noteq> {||} \<and> ds |\<subseteq>| s"
  by (simp add: variant_matched_def len_positive)

lemma variant_matched_none:
  "any_variant a = None \<Longrightarrow> all_variants a = None \<Longrightarrow> only_variants a = None \<Longrightarrow>
   variant_matched a ds f"
  by (simp add: variant_matched_def)

lemma rule_matched_match:
  "match a = Some n \<Longrightarrow> rules n = Some r \<Longrightarrow>
   rule_matched matches a label rules cl u = matches r label rules cl u"
  by (simp add: rule_matched_def)

lemma rule_matched_not_match:
  "match a = None \<Longrightarrow> not_match a = Some n \<Longrightarrow> rules n = Some r \<Longrightarrow>
   matches r label rules cl u = Inr b \<Longrightarrow>
   rule_matched matches a label rules cl u = Inr (\<not> b)"
  by (simp add: rule_matched_def)

lemma rule_matched_no_rule:
  "match a = None \<Longrightarrow> not_match a = None \<Longrightarrow>
   rule_matched matches a label rules cl u = Inr True"
  by (simp add: rule_matched_def)

lemma rule_matched_KeyError:
  "match a = Some n \<or> (match a = None \<and> not_match a = Some n) \<Longrightarrow> rules n = None \<Longrightarrow>
   rule_matched matches a label rules cl u = Inl (KeyError n)"
  by (auto simp: rule_matched_def)

lemma rule_matched_fields:
  "match a = match b \<Longrightarrow> not_match a = not_match b \<Longrightarrow>
   rule_matched matches a label rules cl u = rule_matched matches b label rules cl u"
  by (simp add: rule_matched_def split: option.splits)

lemma Action_apply_Inr:
  "rule_matched matches a label rules cl u = Inr rm \<Longrightarrow>
   Action_apply matches a label ds f rules cl u =
     Inr (if rm \<and> variant_matched a ds f then Some (disp a) else None)"
  by (simp add: Action_apply_def)

lemma Action_apply_Inl:
  "rule_matched matches a label rules cl u = Inl e \<Longrightarrow>
   Action_apply matches a label ds f rules cl u = Inl e"
  by (simp add: Action_apply_def)

lemma Action_apply_fields:
  assumes "match a = match b" "not_match a = not_match b" "disp a = disp b"
      and "variant_matched a ds f = variant_matched b ds f"
  shows "Action_apply matches a label ds f rules cl u =
         Action_apply matches b label ds f rules cl u"
  using assms rule_matched_fields [OF assms(1,2), of matches label rules cl u]
  by (simp add: Action_apply_def split: sum.splits)

subsection \<open>The three variant quantifiers\<close>

text \<open>
  C7. When \<open>any_variant\<close> is present, the variant condition holds exactly when
  \<open>any_variant\<close> and \<open>disp_set\<close> have a disposition in common: it holds for every
  \<open>disp_set\<close> that shares a disposition with \<open>any_variant\<close> and fails for every disjoint
  one, the empty set included. For an action without a rule condition this decides what
  \<open>apply\<close> returns.
\<close>

theorem any_variant_governs:
  assumes "any_variant a = Some s"
  shows "(variant_matched a ds f \<longleftrightarrow> s |\<inter>| ds \<noteq> {||})
       \<and> (d |\<in>| s \<and> d |\<in>| ds \<longrightarrow> variant_matched a ds f)
       \<and> (s |\<inter>| ds = {||} \<longrightarrow> \<not> variant_matched a ds f)
       \<and> \<not> variant_matched a {||} f
       \<and> (match a = None \<and> not_match a = None \<longrightarrow>
            Action_apply matches a label ds f rules cl u =
              Inr (if s |\<inter>| ds \<noteq> {||} then Some (disp a) else None))"
proof -
  have vm: "variant_matched a ds f \<longleftrightarrow> s |\<inter>| ds \<noteq> {||}" for ds
    using assms by (rule variant_matched_any)
  have "d |\<in>| s \<and> d |\<in>| ds \<longrightarrow> s |\<inter>| ds \<noteq> {||}"
    by auto
  moreover have "match a = None \<and> not_match a = None \<longrightarrow>
      Action_apply matches a label ds f rules cl u =
        Inr (if s |\<inter>| ds \<noteq> {||} then Some (disp a) else None)"
    by (simp add: Action_apply_Inr rule_matched_no_rule vm)
  ultimately show ?thesis
    by (simp add: vm)
qed

theorem any_variant_governs_witness:
  "let a_any = \<lparr>disp = ''blocked'', comment = None, match = None, not_match = None,
                 any_variant = Some {|''valid'', ''blocked''|}, all_variants = None,
                 only_variants = None\<rparr>;
       m_eq = (\<lambda>(r::nat list) (l::nat list) (rs::string \<rightharpoonup> nat list) (c::unit) (u::unit).
                  Inr (r = l) :: exception + bool);
       rules = [''r1'' \<mapsto> [97::nat]];
       a_x = \<lparr>disp = ''blocked'', comment = None, match = None, not_match = None,
               any_variant = Some {|''x''|}, all_variants = None,
               only_variants = None\<rparr>
   in any_variant a_any = Some {|''valid'', ''blocked''|}
      \<and> ''valid'' |\<in>| {|''valid'', ''blocked''|} \<and> ''valid'' |\<in>| {|''valid''|}
      \<and> variant_matched a_any {|''valid''|} False
      \<and> match a_any = None \<and> not_match a_any = None
      \<and> Action_apply m_eq a_any [97] {|''valid''|} False rules () () = Inr (Some ''blocked'')
      \<and> any_variant a_x = Some {|''x''|}
      \<and> {|''x''|} |\<inter>| {|''y''|} = {||}
      \<and> \<not> variant_matched a_x {|''y''|} True
      \<and> Action_apply m_eq a_x [97] {|''y''|} True rules () () = Inr None"
proof -
  let ?a_any =
    "\<lparr>disp = ''blocked'', comment = None, match = None, not_match = None,
       any_variant = Some {|''valid'', ''blocked''|}, all_variants = None,
       only_variants = None\<rparr>"
  let ?m_eq =
    "(\<lambda>(r::nat list) (l::nat list) (rs::string \<rightharpoonup> nat list) (c::unit) (u::unit).
         Inr (r = l) :: exception + bool)"
  let ?rules =
    "[''r1'' \<mapsto> [97::nat]]"
  let ?a_x =
    "\<lparr>disp = ''blocked'', comment = None, match = None, not_match = None,
       any_variant = Some {|''x''|}, all_variants = None,
       only_variants = None\<rparr>"
  show ?thesis
    using any_variant_governs [where a = ?a_any and s = "{|''valid'', ''blocked''|}" and ds = "{|''valid''|}"
            and f = False and d = "''valid''" and matches = ?m_eq and label = "[97]"
            and rules = ?rules and cl = "()" and u = "()"]
          any_variant_governs [where a = ?a_x and s = "{|''x''|}" and ds = "{|''y''|}"
            and f = True and d = "''x''" and matches = ?m_eq and label = "[97]"
            and rules = ?rules and cl = "()" and u = "()"]
    by (simp add: Let_def)
qed

text \<open>
  C4. When \<open>all_variants\<close> is the quantifier that governs (\<open>any_variant\<close> absent,
  \<open>all_variants\<close> present), the variant condition holds exactly when \<open>disp_set\<close> is
  not empty and is included in \<open>all_variants\<close>. The empty \<open>disp_set\<close> never satisfies
  it, although it is included in every set.
\<close>

theorem all_variants_governs:
  assumes "any_variant a = None" and "all_variants a = Some s"
  shows "(variant_matched a ds f \<longleftrightarrow> ds \<noteq> {||} \<and> ds |\<subseteq>| s)
       \<and> \<not> variant_matched a {||} f
       \<and> (match a = None \<and> not_match a = None \<longrightarrow>
            Action_apply matches a label ds f rules cl u =
              Inr (if ds \<noteq> {||} \<and> ds |\<subseteq>| s then Some (disp a) else None))"
  using assms
  by (simp add: variant_matched_all Action_apply_Inr rule_matched_no_rule)

theorem all_variants_governs_witness:
  "let a_all = \<lparr>disp = ''blocked'', comment = None, match = None, not_match = None,
                 any_variant = None, all_variants = Some {|''valid'', ''blocked''|},
                 only_variants = None\<rparr>;
       m_eq = (\<lambda>(r::nat list) (l::nat list) (rs::string \<rightharpoonup> nat list) (c::unit) (u::unit).
                  Inr (r = l) :: exception + bool);
       rules = [''r1'' \<mapsto> [97::nat]]
   in any_variant a_all = None \<and> all_variants a_all = Some {|''valid'', ''blocked''|}
      \<and> match a_all = None \<and> not_match a_all = None
      \<and> \<not> variant_matched a_all {||} True
      \<and> variant_matched a_all {|''valid'', ''blocked''|} False
      \<and> \<not> variant_matched a_all {|''valid'', ''other''|} True
      \<and> Action_apply m_eq a_all [97] {|''valid'', ''blocked''|} False rules () () = Inr (Some ''blocked'')
      \<and> Action_apply m_eq a_all [97] {||} False rules () () = Inr None"
proof -
  let ?a_all =
    "\<lparr>disp = ''blocked'', comment = None, match = None, not_match = None,
       any_variant = None, all_variants = Some {|''valid'', ''blocked''|},
       only_variants = None\<rparr>"
  let ?m_eq =
    "(\<lambda>(r::nat list) (l::nat list) (rs::string \<rightharpoonup> nat list) (c::unit) (u::unit).
         Inr (r = l) :: exception + bool)"
  let ?rules =
    "[''r1'' \<mapsto> [97::nat]]"
  show ?thesis
    using all_variants_governs [where a = ?a_all and s = "{|''valid'', ''blocked''|}" and ds = "{|''valid'', ''blocked''|}" and f = False
            and matches = ?m_eq and label = "[97]" and rules = ?rules and cl = "()" and u = "()"]
          all_variants_governs [where a = ?a_all and s = "{|''valid'', ''blocked''|}"
            and ds = "{|''valid'', ''other''|}" and f = True
            and matches = ?m_eq and label = "[97]" and rules = ?rules and cl = "()" and u = "()"]
          all_variants_governs [where a = ?a_all and s = "{|''valid'', ''blocked''|}" and ds = "{||}" and f = False
            and matches = ?m_eq and label = "[97]" and rules = ?rules and cl = "()" and u = "()"]
    by (simp add: Let_def)
qed

text \<open>
  C5. When \<open>only_variants\<close> is the quantifier that governs (\<open>any_variant\<close> and
  \<open>all_variants\<close> absent, \<open>only_variants\<close> present), the variant condition holds
  exactly when the flag \<open>only_variants\<close> passed to \<open>apply\<close> is true, \<open>disp_set\<close> is
  not empty and \<open>disp_set\<close> is included in the field \<open>only_variants\<close>. With a false
  flag the condition fails for every \<open>disp_set\<close>.
\<close>

theorem only_variants_governs:
  assumes "any_variant a = None" and "all_variants a = None" and "only_variants a = Some s"
  shows "(variant_matched a ds f \<longleftrightarrow> f \<and> ds \<noteq> {||} \<and> ds |\<subseteq>| s)
       \<and> \<not> variant_matched a ds False
       \<and> (match a = None \<and> not_match a = None \<longrightarrow>
            Action_apply matches a label ds f rules cl u =
              Inr (if f \<and> ds \<noteq> {||} \<and> ds |\<subseteq>| s then Some (disp a) else None))"
  using assms
  by (simp add: variant_matched_only Action_apply_Inr rule_matched_no_rule)

theorem only_variants_governs_witness:
  "let a_only = \<lparr>disp = ''blocked'', comment = None, match = None, not_match = None,
                  any_variant = None, all_variants = None,
                  only_variants = Some {|''valid''|}\<rparr>;
       m_eq = (\<lambda>(r::nat list) (l::nat list) (rs::string \<rightharpoonup> nat list) (c::unit) (u::unit).
                  Inr (r = l) :: exception + bool);
       rules = [''r1'' \<mapsto> [97::nat]]
   in any_variant a_only = None \<and> all_variants a_only = None
      \<and> only_variants a_only = Some {|''valid''|}
      \<and> match a_only = None \<and> not_match a_only = None
      \<and> \<not> variant_matched a_only {|''valid''|} False
      \<and> variant_matched a_only {|''valid''|} True
      \<and> Action_apply m_eq a_only [97] {|''valid''|} False rules () () = Inr None
      \<and> Action_apply m_eq a_only [97] {|''valid''|} True rules () () = Inr (Some ''blocked'')"
proof -
  let ?a_only =
    "\<lparr>disp = ''blocked'', comment = None, match = None, not_match = None,
       any_variant = None, all_variants = None,
       only_variants = Some {|''valid''|}\<rparr>"
  let ?m_eq =
    "(\<lambda>(r::nat list) (l::nat list) (rs::string \<rightharpoonup> nat list) (c::unit) (u::unit).
         Inr (r = l) :: exception + bool)"
  let ?rules =
    "[''r1'' \<mapsto> [97::nat]]"
  show ?thesis
    using only_variants_governs [where a = ?a_only and s = "{|''valid''|}"
            and ds = "{|''valid''|}" and f = False
            and matches = ?m_eq and label = "[97]" and rules = ?rules and cl = "()" and u = "()"]
          only_variants_governs [where a = ?a_only and s = "{|''valid''|}"
            and ds = "{|''valid''|}" and f = True
            and matches = ?m_eq and label = "[97]" and rules = ?rules and cl = "()" and u = "()"]
    by (simp add: Let_def)
qed

subsection \<open>Priority among the quantifiers\<close>

text \<open>
  C2. Only the first quantifier present, in the order \<open>any_variant\<close>, \<open>all_variants\<close>,
  \<open>only_variants\<close>, is evaluated. When \<open>any_variant\<close> is present, \<open>apply\<close> returns
  the same whatever \<open>all_variants\<close> and \<open>only_variants\<close> hold (so also when they are
  absent); when \<open>any_variant\<close> is absent and \<open>all_variants\<close> is present, it returns
  the same whatever \<open>only_variants\<close> holds. The instance below takes \<open>any_variant = {x}\<close>,
  \<open>all_variants = {y}\<close> and \<open>disp_set = {y}\<close>, where \<open>all_variants\<close> alone fires and
  \<open>any_variant\<close> alone does not: the action does not fire.
\<close>

theorem quantifier_priority:
  "(any_variant a \<noteq> None \<longrightarrow>
      Action_apply matches a label ds f rules cl u =
      Action_apply matches (a\<lparr>all_variants := x, only_variants := y\<rparr>) label ds f rules cl u)
 \<and> (any_variant a = None \<longrightarrow> all_variants a \<noteq> None \<longrightarrow>
      Action_apply matches a label ds f rules cl u =
      Action_apply matches (a\<lparr>only_variants := y\<rparr>) label ds f rules cl u)"
proof (intro conjI impI)
  assume "any_variant a \<noteq> None"
  then obtain s where s: "any_variant a = Some s" by auto
  let ?b = "a\<lparr>all_variants := x, only_variants := y\<rparr>"
  have "any_variant ?b = Some s" using s by simp
  then have "variant_matched a ds f = variant_matched ?b ds f"
    using s by (simp add: variant_matched_any)
  then show "Action_apply matches a label ds f rules cl u =
             Action_apply matches ?b label ds f rules cl u"
    by (intro Action_apply_fields) simp_all
next
  assume "any_variant a = None" "all_variants a \<noteq> None"
  then obtain s where s: "any_variant a = None" "all_variants a = Some s" by auto
  let ?b = "a\<lparr>only_variants := y\<rparr>"
  have "any_variant ?b = None" "all_variants ?b = Some s" using s by simp_all
  then have "variant_matched a ds f = variant_matched ?b ds f"
    using s by (simp add: variant_matched_all)
  then show "Action_apply matches a label ds f rules cl u =
             Action_apply matches ?b label ds f rules cl u"
    by (intro Action_apply_fields) simp_all
qed

theorem quantifier_priority_witness:
  "let a_any_all = \<lparr>disp = ''blocked'', comment = None, match = None, not_match = None,
                     any_variant = Some {|''x''|}, all_variants = Some {|''y''|},
                     only_variants = None\<rparr>;
       m_eq = (\<lambda>(r::nat list) (l::nat list) (rs::string \<rightharpoonup> nat list) (c::unit) (u::unit).
                  Inr (r = l) :: exception + bool);
       rules = [''r1'' \<mapsto> [97::nat]];
       a_any = \<lparr>disp = ''blocked'', comment = None, match = None, not_match = None,
                 any_variant = Some {|''x''|}, all_variants = None,
                 only_variants = None\<rparr>;
       a_all = \<lparr>disp = ''blocked'', comment = None, match = None, not_match = None,
                 any_variant = None, all_variants = Some {|''y''|},
                 only_variants = None\<rparr>;
       a_all_only = \<lparr>disp = ''blocked'', comment = None, match = None, not_match = None,
                      any_variant = None, all_variants = Some {|''y''|},
                      only_variants = Some {|''x''|}\<rparr>;
       a_only = \<lparr>disp = ''blocked'', comment = None, match = None, not_match = None,
                  any_variant = None, all_variants = None,
                  only_variants = Some {|''x''|}\<rparr>
   in any_variant a_any_all \<noteq> None
      \<and> Action_apply m_eq a_any_all [97] {|''y''|} True rules () ()
          = Action_apply m_eq a_any [97] {|''y''|} True rules () ()
      \<and> Action_apply m_eq a_any_all [97] {|''y''|} True rules () () = Inr None
      \<and> Action_apply m_eq a_all [97] {|''y''|} True rules () () = Inr (Some ''blocked'')
      \<and> any_variant a_all_only = None \<and> all_variants a_all_only \<noteq> None
      \<and> Action_apply m_eq a_all_only [97] {|''y''|} True rules () ()
          = Action_apply m_eq a_all [97] {|''y''|} True rules () ()
      \<and> Action_apply m_eq a_all_only [97] {|''y''|} True rules () () = Inr (Some ''blocked'')
      \<and> Action_apply m_eq a_only [97] {|''y''|} True rules () () = Inr None"
proof -
  let ?a_any_all =
    "\<lparr>disp = ''blocked'', comment = None, match = None, not_match = None,
       any_variant = Some {|''x''|}, all_variants = Some {|''y''|},
       only_variants = None\<rparr>"
  let ?m_eq =
    "(\<lambda>(r::nat list) (l::nat list) (rs::string \<rightharpoonup> nat list) (c::unit) (u::unit).
         Inr (r = l) :: exception + bool)"
  let ?rules =
    "[''r1'' \<mapsto> [97::nat]]"
  let ?a_any =
    "\<lparr>disp = ''blocked'', comment = None, match = None, not_match = None,
       any_variant = Some {|''x''|}, all_variants = None,
       only_variants = None\<rparr>"
  let ?a_all =
    "\<lparr>disp = ''blocked'', comment = None, match = None, not_match = None,
       any_variant = None, all_variants = Some {|''y''|},
       only_variants = None\<rparr>"
  let ?a_all_only =
    "\<lparr>disp = ''blocked'', comment = None, match = None, not_match = None,
       any_variant = None, all_variants = Some {|''y''|},
       only_variants = Some {|''x''|}\<rparr>"
  let ?a_only =
    "\<lparr>disp = ''blocked'', comment = None, match = None, not_match = None,
       any_variant = None, all_variants = None,
       only_variants = Some {|''x''|}\<rparr>"
  have 1: "Action_apply ?m_eq ?a_any [97] {|''y''|} True ?rules () () = Inr None"
    by (simp add: Action_apply_def rule_matched_def variant_matched_def len_positive)
  have 2: "Action_apply ?m_eq ?a_all [97] {|''y''|} True ?rules () () = Inr (Some ''blocked'')"
    by (simp add: Action_apply_def rule_matched_def variant_matched_def len_positive)
  have 3: "Action_apply ?m_eq ?a_only [97] {|''y''|} True ?rules () () = Inr None"
    by (simp add: Action_apply_def rule_matched_def variant_matched_def len_positive)
  show ?thesis
    using quantifier_priority [where a = ?a_any_all and x = None and y = None
            and ds = "{|''y''|}" and f = True
            and matches = ?m_eq and label = "[97]" and rules = ?rules and cl = "()" and u = "()"]
          quantifier_priority [where a = ?a_all_only and x = None and y = None
            and ds = "{|''y''|}" and f = True
            and matches = ?m_eq and label = "[97]" and rules = ?rules and cl = "()" and u = "()"]
    by (simp add: Let_def 1 2 3)
qed

subsection \<open>What apply returns\<close>

text \<open>
  C1. \<open>apply\<close> returns the disposition exactly when the rule condition and the variant
  condition both hold, and \<open>None\<close> otherwise. The rule condition is the result \<open>b\<close> of
  the rule named by \<open>match\<close> on the label when \<open>match\<close> is present, the negation of the
  result of the rule named by \<open>not_match\<close> when only \<open>not_match\<close> is present, and true
  when neither is present. The result of a rule exists when the name is in
  \<open>rules_lookup\<close> and the matcher returns; the other case is C3.
\<close>

theorem apply_fires_iff:
  "(match a = Some n \<longrightarrow> rules n = Some r \<longrightarrow> matches r label rules cl u = Inr b \<longrightarrow>
      Action_apply matches a label ds f rules cl u =
        Inr (if b \<and> variant_matched a ds f then Some (disp a) else None))
 \<and> (match a = None \<longrightarrow> not_match a = Some n \<longrightarrow> rules n = Some r \<longrightarrow>
      matches r label rules cl u = Inr b \<longrightarrow>
      Action_apply matches a label ds f rules cl u =
        Inr (if \<not> b \<and> variant_matched a ds f then Some (disp a) else None))
 \<and> (match a = None \<longrightarrow> not_match a = None \<longrightarrow>
      Action_apply matches a label ds f rules cl u =
        Inr (if variant_matched a ds f then Some (disp a) else None))"
proof (intro conjI impI)
  assume "match a = Some n" "rules n = Some r" "matches r label rules cl u = Inr b"
  then have "rule_matched matches a label rules cl u = Inr b"
    by (simp add: rule_matched_match)
  then show "Action_apply matches a label ds f rules cl u =
        Inr (if b \<and> variant_matched a ds f then Some (disp a) else None)"
    by (rule Action_apply_Inr)
next
  assume "match a = None" "not_match a = Some n" "rules n = Some r"
    "matches r label rules cl u = Inr b"
  then have "rule_matched matches a label rules cl u = Inr (\<not> b)"
    by (rule rule_matched_not_match)
  then show "Action_apply matches a label ds f rules cl u =
        Inr (if \<not> b \<and> variant_matched a ds f then Some (disp a) else None)"
    by (rule Action_apply_Inr)
next
  assume "match a = None" "not_match a = None"
  then have "rule_matched matches a label rules cl u = Inr True"
    by (rule rule_matched_no_rule)
  then show "Action_apply matches a label ds f rules cl u =
        Inr (if variant_matched a ds f then Some (disp a) else None)"
    by (simp add: Action_apply_Inr)
qed

theorem apply_fires_iff_witness:
  "let a_match_any = \<lparr>disp = ''blocked'', comment = None, match = Some ''r1'', not_match = None,
                       any_variant = Some {|''valid'', ''blocked''|}, all_variants = None,
                       only_variants = None\<rparr>;
       rules = [''r1'' \<mapsto> [97::nat]];
       m_eq = (\<lambda>(r::nat list) (l::nat list) (rs::string \<rightharpoonup> nat list) (c::unit) (u::unit).
                  Inr (r = l) :: exception + bool);
       a_not_match = \<lparr>disp = ''blocked'', comment = None, match = None, not_match = Some ''r1'',
                       any_variant = None, all_variants = None,
                       only_variants = None\<rparr>;
       a_all = \<lparr>disp = ''blocked'', comment = None, match = None, not_match = None,
                 any_variant = None, all_variants = Some {|''valid'', ''blocked''|},
                 only_variants = None\<rparr>
   in match a_match_any = Some ''r1'' \<and> rules ''r1'' = Some [97]
      \<and> m_eq [97] [97] rules () () = Inr True \<and> m_eq [97] [98] rules () () = Inr False
      \<and> Action_apply m_eq a_match_any [97] {|''valid''|} False rules () () = Inr (Some ''blocked'')
      \<and> Action_apply m_eq a_match_any [97] {|''other''|} False rules () () = Inr None
      \<and> Action_apply m_eq a_match_any [98] {|''valid''|} False rules () () = Inr None
      \<and> match a_not_match = None \<and> not_match a_not_match = Some ''r1''
      \<and> Action_apply m_eq a_not_match [97] {||} False rules () () = Inr None
      \<and> Action_apply m_eq a_not_match [98] {||} False rules () () = Inr (Some ''blocked'')
      \<and> match a_all = None \<and> not_match a_all = None
      \<and> Action_apply m_eq a_all [97] {|''valid''|} False rules () () = Inr (Some ''blocked'')
      \<and> Action_apply m_eq a_all [97] {|''other''|} False rules () () = Inr None"
proof -
  let ?a_match_any =
    "\<lparr>disp = ''blocked'', comment = None, match = Some ''r1'', not_match = None,
       any_variant = Some {|''valid'', ''blocked''|}, all_variants = None,
       only_variants = None\<rparr>"
  let ?rules =
    "[''r1'' \<mapsto> [97::nat]]"
  let ?m_eq =
    "(\<lambda>(r::nat list) (l::nat list) (rs::string \<rightharpoonup> nat list) (c::unit) (u::unit).
         Inr (r = l) :: exception + bool)"
  let ?a_not_match =
    "\<lparr>disp = ''blocked'', comment = None, match = None, not_match = Some ''r1'',
       any_variant = None, all_variants = None,
       only_variants = None\<rparr>"
  let ?a_all =
    "\<lparr>disp = ''blocked'', comment = None, match = None, not_match = None,
       any_variant = None, all_variants = Some {|''valid'', ''blocked''|},
       only_variants = None\<rparr>"
  have vm: "variant_matched ?a_match_any {|''valid''|} False"
    "\<not> variant_matched ?a_match_any {|''other''|} False"
    "variant_matched ?a_not_match {||} False"
    "variant_matched ?a_all {|''valid''|} False"
    "\<not> variant_matched ?a_all {|''other''|} False"
    by (simp_all add: variant_matched_def len_positive)
  show ?thesis
    using apply_fires_iff [where a = ?a_match_any and n = "''r1''" and r = "[97]" and b = True
            and ds = "{|''valid''|}" and f = False
            and matches = ?m_eq and label = "[97]" and rules = ?rules and cl = "()" and u = "()"]
          apply_fires_iff [where a = ?a_match_any and n = "''r1''" and r = "[97]" and b = True
            and ds = "{|''other''|}" and f = False
            and matches = ?m_eq and label = "[97]" and rules = ?rules and cl = "()" and u = "()"]
          apply_fires_iff [where a = ?a_match_any and n = "''r1''" and r = "[97]" and b = False
            and ds = "{|''valid''|}" and f = False
            and matches = ?m_eq and label = "[98]" and rules = ?rules and cl = "()" and u = "()"]
          apply_fires_iff [where a = ?a_not_match and n = "''r1''" and r = "[97]" and b = True
            and ds = "{||}" and f = False
            and matches = ?m_eq and label = "[97]" and rules = ?rules and cl = "()" and u = "()"]
          apply_fires_iff [where a = ?a_not_match and n = "''r1''" and r = "[97]" and b = False
            and ds = "{||}" and f = False
            and matches = ?m_eq and label = "[98]" and rules = ?rules and cl = "()" and u = "()"]
          apply_fires_iff [where a = ?a_all and n = "''r1''" and r = "[97]" and b = True
            and ds = "{|''valid''|}" and f = False
            and matches = ?m_eq and label = "[97]" and rules = ?rules and cl = "()" and u = "()"]
          apply_fires_iff [where a = ?a_all and n = "''r1''" and r = "[97]" and b = True
            and ds = "{|''other''|}" and f = False
            and matches = ?m_eq and label = "[97]" and rules = ?rules and cl = "()" and u = "()"]
    by (simp add: Let_def vm)
qed

text \<open>
  C8. An action with \<open>match\<close>, \<open>not_match\<close>, \<open>any_variant\<close>, \<open>all_variants\<close> and
  \<open>only_variants\<close> all absent is unconditional: \<open>apply\<close> returns its disposition for
  every label, every \<open>disp_set\<close> and both values of the flag.
\<close>

theorem unconditional_action:
  assumes "match a = None" and "not_match a = None"
      and "any_variant a = None" and "all_variants a = None" and "only_variants a = None"
  shows "Action_apply matches a label ds f rules cl u = Inr (Some (disp a))"
  using assms
  by (simp add: Action_apply_Inr rule_matched_no_rule variant_matched_none)

theorem unconditional_action_witness:
  "let a_none = \<lparr>disp = ''blocked'', comment = None, match = None, not_match = None,
                  any_variant = None, all_variants = None,
                  only_variants = None\<rparr>;
       m_eq = (\<lambda>(r::nat list) (l::nat list) (rs::string \<rightharpoonup> nat list) (c::unit) (u::unit).
                  Inr (r = l) :: exception + bool);
       rules = [''r1'' \<mapsto> [97::nat]]
   in match a_none = None \<and> not_match a_none = None
      \<and> any_variant a_none = None \<and> all_variants a_none = None \<and> only_variants a_none = None
      \<and> Action_apply m_eq a_none [97, 98] {|''other''|} False rules () () = Inr (Some ''blocked'')
      \<and> Action_apply m_eq a_none [] {||} True Map.empty () () = Inr (Some ''blocked'')"
proof -
  let ?a_none =
    "\<lparr>disp = ''blocked'', comment = None, match = None, not_match = None,
       any_variant = None, all_variants = None,
       only_variants = None\<rparr>"
  let ?m_eq =
    "(\<lambda>(r::nat list) (l::nat list) (rs::string \<rightharpoonup> nat list) (c::unit) (u::unit).
         Inr (r = l) :: exception + bool)"
  let ?rules =
    "[''r1'' \<mapsto> [97::nat]]"
  show ?thesis
    using unconditional_action [where a = ?a_none and ds = "{|''other''|}" and f = False
            and matches = ?m_eq and label = "[97, 98]" and rules = ?rules and cl = "()" and u = "()"]
          unconditional_action [where a = ?a_none and ds = "{||}" and f = True
            and matches = ?m_eq and label = "[]" and rules = "Map.empty" and cl = "()" and u = "()"]
    by (simp add: Let_def)
qed

subsection \<open>A rule that is not defined\<close>

text \<open>
  C3. For every action that the constructor returns, when \<open>match\<close> or \<open>not_match\<close>
  names a rule that \<open>rules_lookup\<close> does not hold, \<open>apply\<close> raises the \<open>KeyError\<close> of
  the failed lookup (the specification's \<open>UnknownRuleReference\<close>) with that name, and so
  returns neither a disposition nor \<open>None\<close>.
\<close>

theorem unknown_rule_raises:
  assumes "Action_init d c m nm av alv ov = Inr a"
      and "match a = Some n \<or> not_match a = Some n"
      and "rules n = None"
  shows "Action_apply matches a label ds f rules cl u = Inl (KeyError n)
       \<and> (\<forall>res. Action_apply matches a label ds f rules cl u \<noteq> Inr res)"
proof -
  from assms(1) have "match a = None \<or> not_match a = None"
    by (auto simp: Action_init_def Let_def split: if_splits)
  with assms(2) have "match a = Some n \<or> (match a = None \<and> not_match a = Some n)"
    by auto
  then have "rule_matched matches a label rules cl u = Inl (KeyError n)"
    using assms(3) by (rule rule_matched_KeyError)
  then show ?thesis by (simp add: Action_apply_Inl)
qed

theorem unknown_rule_raises_witness:
  "let a_match = \<lparr>disp = ''blocked'', comment = None, match = Some ''missing'', not_match = None,
                   any_variant = None, all_variants = None,
                   only_variants = None\<rparr>;
       rules = [''r1'' \<mapsto> [97::nat]];
       m_eq = (\<lambda>(r::nat list) (l::nat list) (rs::string \<rightharpoonup> nat list) (c::unit) (u::unit).
                  Inr (r = l) :: exception + bool);
       a_not_match = \<lparr>disp = ''blocked'', comment = None, match = None, not_match = Some ''missing'',
                       any_variant = None, all_variants = None,
                       only_variants = None\<rparr>
   in Action_init ''blocked'' None (Some ''missing'') None None None None = Inr a_match
      \<and> (match a_match = Some ''missing'' \<or> not_match a_match = Some ''missing'')
      \<and> rules ''missing'' = None
      \<and> Action_apply m_eq a_match [97] {|''valid''|} True rules () () = Inl (KeyError ''missing'')
      \<and> Action_init ''blocked'' None None (Some ''missing'') None None None = Inr a_not_match
      \<and> (match a_not_match = Some ''missing'' \<or> not_match a_not_match = Some ''missing'')
      \<and> Action_apply m_eq a_not_match [97] {||} False rules () () = Inl (KeyError ''missing'')"
proof -
  let ?a_match =
    "\<lparr>disp = ''blocked'', comment = None, match = Some ''missing'', not_match = None,
       any_variant = None, all_variants = None,
       only_variants = None\<rparr>"
  let ?rules =
    "[''r1'' \<mapsto> [97::nat]]"
  let ?m_eq =
    "(\<lambda>(r::nat list) (l::nat list) (rs::string \<rightharpoonup> nat list) (c::unit) (u::unit).
         Inr (r = l) :: exception + bool)"
  let ?a_not_match =
    "\<lparr>disp = ''blocked'', comment = None, match = None, not_match = Some ''missing'',
       any_variant = None, all_variants = None,
       only_variants = None\<rparr>"
  have 1: "Action_init ''blocked'' None (Some ''missing'') None None None None = Inr ?a_match"
    by (simp add: Action_init_def)
  have 2: "Action_init ''blocked'' None None (Some ''missing'') None None None = Inr ?a_not_match"
    by (simp add: Action_init_def)
  show ?thesis
    using unknown_rule_raises [OF 1, where n = "''missing''" and ds = "{|''valid''|}" and f = True
            and matches = ?m_eq and label = "[97]" and rules = ?rules and cl = "()" and u = "()"]
          unknown_rule_raises [OF 2, where n = "''missing''" and ds = "{||}" and f = False
            and matches = ?m_eq and label = "[97]" and rules = ?rules and cl = "()" and u = "()"]
    by (simp add: Let_def 1 2)
qed

subsection \<open>Construction\<close>

text \<open>
  C6. The constructor raises \<open>LGRFormatException\<close> with the reason \<open>MATCH_NOT_MATCH\<close>
  whenever \<open>match\<close> and \<open>not_match\<close> are both given. No other arguments make it fail:
  when one of the two is \<open>None\<close> it returns an action that holds the disposition, the
  comment and the two names as given. The check is made in the constructor only:
  \<open>apply\<close> raises an \<open>LGRFormatException\<close> only when the matcher of a rule raised it.
\<close>

theorem init_fails_iff_match_and_not_match:
  "(m \<noteq> None \<and> nm \<noteq> None \<longrightarrow>
      Action_init d c m nm av alv ov = Inl (LGRFormatException MATCH_NOT_MATCH))
 \<and> (m = None \<or> nm = None \<longrightarrow>
      (\<exists>a. Action_init d c m nm av alv ov = Inr a
           \<and> disp a = d \<and> comment a = c \<and> match a = m \<and> not_match a = nm))
 \<and> (Action_apply matches a label ds f rules cl u = Inl (LGRFormatException reason) \<longrightarrow>
      (\<exists>r. matches r label rules cl u = Inl (LGRFormatException reason)))"
proof (intro conjI impI)
  assume "m \<noteq> None \<and> nm \<noteq> None"
  then show "Action_init d c m nm av alv ov = Inl (LGRFormatException MATCH_NOT_MATCH)"
    by (simp add: Action_init_def)
next
  assume "m = None \<or> nm = None"
  then show "\<exists>a. Action_init d c m nm av alv ov = Inr a
      \<and> disp a = d \<and> comment a = c \<and> match a = m \<and> not_match a = nm"
    by (auto simp: Action_init_def)
next
  assume "Action_apply matches a label ds f rules cl u = Inl (LGRFormatException reason)"
  then have "rule_matched matches a label rules cl u = Inl (LGRFormatException reason)"
    by (simp add: Action_apply_def Let_def split: sum.splits if_splits)
  then show "\<exists>r. matches r label rules cl u = Inl (LGRFormatException reason)"
    by (auto simp: rule_matched_def split: option.splits sum.splits)
qed

theorem init_fails_iff_match_and_not_match_witness:
  "let a_match = \<lparr>disp = ''blocked'', comment = None, match = Some ''r1'', not_match = None,
                   any_variant = None, all_variants = None,
                   only_variants = None\<rparr>;
       m_raise = (\<lambda>(r::nat list) (l::nat list) (rs::string \<rightharpoonup> nat list) (c::unit) (u::unit).
                     Inl (LGRFormatException MATCH_NOT_MATCH) :: exception + bool);
       rules = [''r1'' \<mapsto> [97::nat]]
   in Some ''r1'' \<noteq> None \<and> Some ''r2'' \<noteq> None
      \<and> Action_init ''blocked'' None (Some ''r1'') (Some ''r2'') None (Some [''valid'']) None
          = Inl (LGRFormatException MATCH_NOT_MATCH)
      \<and> (Some ''r1'' = None \<or> (None :: string option) = None)
      \<and> Action_init ''blocked'' None (Some ''r1'') None None None None = Inr a_match
      \<and> Action_apply m_raise a_match [97] {||} False rules () () = Inl (LGRFormatException MATCH_NOT_MATCH)
      \<and> (\<exists>r. m_raise r [97] rules () () = Inl (LGRFormatException MATCH_NOT_MATCH))"
proof -
  let ?a_match =
    "\<lparr>disp = ''blocked'', comment = None, match = Some ''r1'', not_match = None,
       any_variant = None, all_variants = None,
       only_variants = None\<rparr>"
  let ?m_raise =
    "(\<lambda>(r::nat list) (l::nat list) (rs::string \<rightharpoonup> nat list) (c::unit) (u::unit).
         Inl (LGRFormatException MATCH_NOT_MATCH) :: exception + bool)"
  let ?rules =
    "[''r1'' \<mapsto> [97::nat]]"
  have 1: "Action_apply ?m_raise ?a_match [97] {||} False ?rules () ()
      = Inl (LGRFormatException MATCH_NOT_MATCH)"
    by (simp add: Action_apply_def rule_matched_def)
  have 2: "Action_init ''blocked'' None (Some ''r1'') None None None None = Inr ?a_match"
    by (simp add: Action_init_def)
  show ?thesis
    using init_fails_iff_match_and_not_match [where m = "Some ''r1''" and nm = "Some ''r2''"
            and d = "''blocked''" and c = None and av = None and alv = "Some [''valid'']"
            and ov = None and a = ?a_match and ds = "{||}" and f = False
            and reason = MATCH_NOT_MATCH
            and matches = ?m_raise and label = "[97]" and rules = ?rules and cl = "()" and u = "()"]
          init_fails_iff_match_and_not_match [where m = "Some ''r1''" and nm = None
            and d = "''blocked''" and c = None and av = None and alv = None
            and ov = None and a = ?a_match and ds = "{||}" and f = False
            and reason = MATCH_NOT_MATCH
            and matches = ?m_raise and label = "[97]" and rules = ?rules and cl = "()" and u = "()"]
    by (simp add: Let_def 1 2)
qed

text \<open>
  C9. The constructor turns an empty sequence given for \<open>any_variant\<close>, \<open>all_variants\<close>
  or \<open>only_variants\<close> into an absent field: it returns what it returns when that
  argument is \<open>None\<close>, so the two actions are the same value and \<open>apply\<close> cannot tell
  them apart. No constructed action has a quantifier field that is present and empty.
\<close>

theorem init_normalises_empty:
  "Action_init d c m nm (Some []) alv ov = Action_init d c m nm None alv ov
 \<and> Action_init d c m nm av (Some []) ov = Action_init d c m nm av None ov
 \<and> Action_init d c m nm av alv (Some []) = Action_init d c m nm av alv None
 \<and> (Action_init d c m nm av alv ov = Inr a \<longrightarrow>
      any_variant a \<noteq> Some {||} \<and> all_variants a \<noteq> Some {||} \<and> only_variants a \<noteq> Some {||}
      \<and> (av = Some [] \<longrightarrow> any_variant a = None)
      \<and> (alv = Some [] \<longrightarrow> all_variants a = None)
      \<and> (ov = Some [] \<longrightarrow> only_variants a = None))"
  by (auto simp: Action_init_def Let_def frozenset_nonempty split: option.splits if_splits)

theorem init_normalises_empty_witness:
  "let a_none = \<lparr>disp = ''blocked'', comment = None, match = None, not_match = None,
                  any_variant = None, all_variants = None,
                  only_variants = None\<rparr>;
       a_any = \<lparr>disp = ''blocked'', comment = None, match = None, not_match = None,
                 any_variant = Some {|''valid'', ''blocked''|}, all_variants = None,
                 only_variants = None\<rparr>
   in Action_init ''blocked'' None None None (Some []) (Some []) (Some []) = Inr a_none
      \<and> Action_init ''blocked'' None None None None None None = Inr a_none
      \<and> any_variant a_none = None \<and> all_variants a_none = None \<and> only_variants a_none = None
      \<and> Action_init ''blocked'' None None None (Some [''valid'', ''blocked'']) (Some []) None
          = Inr a_any
      \<and> any_variant a_any \<noteq> Some {||} \<and> all_variants a_any = None"
proof -
  let ?a_none =
    "\<lparr>disp = ''blocked'', comment = None, match = None, not_match = None,
       any_variant = None, all_variants = None,
       only_variants = None\<rparr>"
  let ?a_any =
    "\<lparr>disp = ''blocked'', comment = None, match = None, not_match = None,
       any_variant = Some {|''valid'', ''blocked''|}, all_variants = None,
       only_variants = None\<rparr>"
  have 1: "Action_init ''blocked'' None None None (Some []) (Some []) (Some []) = Inr ?a_none"
    by (simp add: Action_init_def)
  have 2: "Action_init ''blocked'' None None None (Some [''valid'', ''blocked'']) (Some []) None
      = Inr ?a_any"
    by (simp add: Action_init_def)
  have 3: "Action_init ''blocked'' None None None None None None = Inr ?a_none"
    by (simp add: Action_init_def)
  show ?thesis
    using init_normalises_empty [where d = "''blocked''" and c = None and m = None and nm = None
            and av = "Some []" and alv = "Some []" and ov = "Some []" and a = ?a_none]
          init_normalises_empty [where d = "''blocked''" and c = None and m = None and nm = None
            and av = "Some [''valid'', ''blocked'']" and alv = "Some []" and ov = None
            and a = ?a_any]
    by (simp add: Let_def 1 2 3)
qed

subsection \<open>Equality and hash\<close>

text \<open>
  C10. Two actions are equal exactly when \<open>disp\<close>, \<open>match\<close>, \<open>not_match\<close>,
  \<open>any_variant\<close>, \<open>all_variants\<close> and \<open>only_variants\<close> are equal, that is when they
  differ at most in \<open>comment\<close>. Equal actions have the same hash, and changing any one
  of the six compared fields of an action gives an action that is not equal to it.
\<close>

theorem eq_and_hash:
  "(Action_eq a b \<longleftrightarrow>
      disp a = disp b \<and> match a = match b \<and> not_match a = not_match b
      \<and> any_variant a = any_variant b \<and> all_variants a = all_variants b
      \<and> only_variants a = only_variants b)
 \<and> (Action_eq a b \<longleftrightarrow> a\<lparr>comment := comment b\<rparr> = b)
 \<and> Action_eq (a\<lparr>comment := c\<rparr>) a
 \<and> (Action_eq a b \<longrightarrow> Action_hash hash a = Action_hash hash b)
 \<and> (d \<noteq> disp a \<longrightarrow> \<not> Action_eq (a\<lparr>disp := d\<rparr>) a)
 \<and> (m \<noteq> match a \<longrightarrow> \<not> Action_eq (a\<lparr>match := m\<rparr>) a)
 \<and> (nm \<noteq> not_match a \<longrightarrow> \<not> Action_eq (a\<lparr>not_match := nm\<rparr>) a)
 \<and> (av \<noteq> any_variant a \<longrightarrow> \<not> Action_eq (a\<lparr>any_variant := av\<rparr>) a)
 \<and> (alv \<noteq> all_variants a \<longrightarrow> \<not> Action_eq (a\<lparr>all_variants := alv\<rparr>) a)
 \<and> (ov \<noteq> only_variants a \<longrightarrow> \<not> Action_eq (a\<lparr>only_variants := ov\<rparr>) a)"
  by (cases a; cases b) (auto simp: Action_eq_def Action_hash_def)

theorem eq_and_hash_witness:
  "let a_first = \<lparr>disp = ''blocked'', comment = Some ''first'', match = None, not_match = None,
                   any_variant = None, all_variants = None,
                   only_variants = None\<rparr>;
       a_second = \<lparr>disp = ''blocked'', comment = Some ''second'', match = None, not_match = None,
                    any_variant = None, all_variants = None,
                    only_variants = None\<rparr>;
       h = (\<lambda>k. int (length (fst k)))
   in Action_eq a_first a_second
      \<and> a_first \<noteq> a_second
      \<and> Action_hash h a_first = Action_hash h a_second
      \<and> ''allowed'' \<noteq> disp a_first \<and> \<not> Action_eq (a_first\<lparr>disp := ''allowed''\<rparr>) a_first
      \<and> Some ''r1'' \<noteq> match a_first \<and> \<not> Action_eq (a_first\<lparr>match := Some ''r1''\<rparr>) a_first
      \<and> Some ''r2'' \<noteq> not_match a_first \<and> \<not> Action_eq (a_first\<lparr>not_match := Some ''r2''\<rparr>) a_first
      \<and> Some {|''x''|} \<noteq> any_variant a_first
      \<and> \<not> Action_eq (a_first\<lparr>any_variant := Some {|''x''|}\<rparr>) a_first
      \<and> Some {|''y''|} \<noteq> all_variants a_first
      \<and> \<not> Action_eq (a_first\<lparr>all_variants := Some {|''y''|}\<rparr>) a_first
      \<and> Some {|''z''|} \<noteq> only_variants a_first
      \<and> \<not> Action_eq (a_first\<lparr>only_variants := Some {|''z''|}\<rparr>) a_first"
proof -
  let ?a_first =
    "\<lparr>disp = ''blocked'', comment = Some ''first'', match = None, not_match = None,
       any_variant = None, all_variants = None,
       only_variants = None\<rparr>"
  let ?a_second =
    "\<lparr>disp = ''blocked'', comment = Some ''second'', match = None, not_match = None,
       any_variant = None, all_variants = None,
       only_variants = None\<rparr>"
  let ?h =
    "(\<lambda>k. int (length (fst k)))"
  show ?thesis
    using eq_and_hash [where a = ?a_first and b = ?a_second and hash = ?h
            and c = "Some ''second''" and d = "''allowed''" and m = "Some ''r1''"
            and nm = "Some ''r2''" and av = "Some {|''x''|}" and alv = "Some {|''y''|}"
            and ov = "Some {|''z''|}"]
    by (simp add: Let_def)
qed

end
